theory Spec2Isabelle
  imports Main "HOL-Library.Word"
begin

section \<open>Data model of \<open>src/objects/session.{hpp,cpp}\<close>\<close>

text \<open>
  The C types of the source: \<open>int\<close> is a 32-bit word, \<open>sqlite3_uint64\<close> a 64-bit word,
  a pointer is an address with \<open>NULL\<close> the address 0.
\<close>

type_synonym c_int = "32 word"
type_synonym sqlite3_uint64 = "64 word"
type_synonym ptr = nat

definition NULL :: ptr where
  "NULL = 0"

definition SQLITE_OK :: c_int where
  "SQLITE_OK = 0"

text \<open>
  The function pointers this file hands to the host as a buffer's free callback
  (\<open>void (*)(char*, void*)\<close>). The only one is \<open>FreeSqliteMemory\<close> (session.cpp:115).
\<close>

datatype free_callback = FreeSqliteMemory_fn

text \<open>
  The values of the host language that cross the method boundary. A string carries its
  UTF-8 bytes (what \<open>v8::String::Utf8Value\<close> yields); \<open>JSObject p\<close> is the handle wrapping
  the native object at address \<open>p\<close> (\<open>info.This()\<close>); \<open>JSBuffer data len cb hint\<close> is
  the byte array built over external memory with its registered free callback.
\<close>

datatype js_value =
    JSUndefined
  | JSNull
  | JSBoolean bool
  | JSNumber int
  | JSString string
  | JSObject ptr
  | JSBuffer ptr c_int free_callback ptr

text \<open>
  What a method throws: \<open>ThrowTypeError msg\<close>, \<open>ThrowError msg\<close>, and the engine error
  raised by \<open>db->ThrowDatabaseError()\<close> (its text is the engine's).
\<close>

datatype js_error = TypeError string | Error string | SqliteError

fun is_usage_error :: "js_error \<Rightarrow> bool" where
  "is_usage_error (TypeError _) = True"
| "is_usage_error _ = False"

text \<open>
  The trace of what a method does to its collaborators, in program order: calls on the
  owning database's registry, writes of the liveness flag, calls into the engine, and the
  host's buffer construction.
\<close>

datatype event =
    Ev_AddSession ptr ptr
  | Ev_RemoveSession ptr ptr
  | Ev_set_alive ptr bool
  | Ev_sqlite3session_delete ptr
  | Ev_sqlite3session_attach ptr "string option"
  | Ev_sqlite3session_enable ptr c_int
  | Ev_sqlite3session_changeset ptr
  | Ev_sqlite3_free ptr
  | Ev_SAFE_NEW_BUFFER ptr c_int free_callback ptr bool

fun is_engine_call :: "event \<Rightarrow> bool" where
  "is_engine_call (Ev_sqlite3session_delete _) = True"
| "is_engine_call (Ev_sqlite3session_attach _ _) = True"
| "is_engine_call (Ev_sqlite3session_enable _ _) = True"
| "is_engine_call (Ev_sqlite3session_changeset _) = True"
| "is_engine_call (Ev_sqlite3_free _) = True"
| "is_engine_call _ = False"

text \<open>The fields of \<open>class Session\<close> (session.hpp:29-32).\<close>

record Session =
  db :: ptr
  session_handle :: ptr
  id_field :: sqlite3_uint64
  alive :: bool

text \<open>
  Modelled from the spec: \<open>class Database\<close> is not among the sources. Of it the model
  keeps what the spec's sections 2 and 6 name: the open and busy state, and the registry
  of live sessions, a collection keyed by session identity and held in identity order.
\<close>

record Database =
  is_open :: bool
  is_busy :: bool
  sessions :: "ptr list"

text \<open>The store: the Session and Database objects by address, and the trace so far.\<close>

record world =
  session_heap :: "ptr \<Rightarrow> Session"
  db_heap :: "ptr \<Rightarrow> Database"
  trace :: "event list"

definition log_event :: "event \<Rightarrow> world \<Rightarrow> world" where
  "log_event e w = w\<lparr>trace := trace w @ [e]\<rparr>"

section \<open>Collaborators\<close>

text \<open>\<open>Session::Compare\<close> (session.hpp:10-12): \<open>a->id < b->id\<close>, unsigned.\<close>

definition Compare :: "world \<Rightarrow> ptr \<Rightarrow> ptr \<Rightarrow> bool" where
  "Compare w a b = (id_field (session_heap w a) < id_field (session_heap w b))"

text \<open>
  Modelled from the spec: \<open>Database::AddSession\<close> and \<open>Database::RemoveSession\<close> are not
  among the sources. The registry is keyed by session identity: adding a session whose
  identity is already registered changes nothing, otherwise the session is inserted in
  identity order; removing a session removes the entry of its identity.
\<close>

definition AddSession :: "ptr \<Rightarrow> ptr \<Rightarrow> world \<Rightarrow> world" where
  "AddSession d s w =
     (let key = (\<lambda>q. id_field (session_heap w q));
          reg = sessions (db_heap w d);
          reg' = (if key s \<in> set (map key reg) then reg else insort_key key s reg)
      in log_event (Ev_AddSession d s)
           (w\<lparr>db_heap := (db_heap w)(d := (db_heap w d)\<lparr>sessions := reg'\<rparr>)\<rparr>))"

definition RemoveSession :: "ptr \<Rightarrow> ptr \<Rightarrow> world \<Rightarrow> world" where
  "RemoveSession d s w =
     (let key = (\<lambda>q. id_field (session_heap w q));
          reg' = filter (\<lambda>q. key q \<noteq> key s) (sessions (db_heap w d))
      in log_event (Ev_RemoveSession d s)
           (w\<lparr>db_heap := (db_heap w)(d := (db_heap w d)\<lparr>sessions := reg'\<rparr>)\<rparr>))"

text \<open>
  Modelled from the spec: the macro \<open>REQUIRE_DATABASE_OPEN\<close> is not among the sources.
  By the spec's section 7 an operation invoked while the connection is not open is a
  usage error, detected before the engine is touched; the message is the model's.
\<close>

definition database_not_open :: js_error where
  "database_not_open = TypeError ''The database connection is not open''"

text \<open>The engine entry points the file calls; the trace records each call.\<close>

definition sqlite3session_delete :: "ptr \<Rightarrow> world \<Rightarrow> world" where
  "sqlite3session_delete h w = log_event (Ev_sqlite3session_delete h) w"

definition sqlite3session_attach :: "ptr \<Rightarrow> string option \<Rightarrow> world \<Rightarrow> world" where
  "sqlite3session_attach h table_name w = log_event (Ev_sqlite3session_attach h table_name) w"

definition sqlite3session_enable :: "ptr \<Rightarrow> c_int \<Rightarrow> world \<Rightarrow> world" where
  "sqlite3session_enable h flag w = log_event (Ev_sqlite3session_enable h flag) w"

definition sqlite3session_changeset :: "ptr \<Rightarrow> world \<Rightarrow> world" where
  "sqlite3session_changeset h w = log_event (Ev_sqlite3session_changeset h) w"

definition sqlite3_free :: "ptr \<Rightarrow> world \<Rightarrow> world" where
  "sqlite3_free p w = log_event (Ev_sqlite3_free p) w"

text \<open>
  Modelled from the spec: the macro \<open>SAFE_NEW_BUFFER\<close> (the host's construction of a byte
  array over external memory) is not among the sources. Whether it succeeds is the host's
  choice, the parameter \<open>ok\<close>. On success the value holds the memory, its length, and the
  free callback with its hint; on failure the result is empty and the memory is still the
  caller's (the spec's section 4.4: it is then released on the failure path).
\<close>

definition SAFE_NEW_BUFFER ::
  "bool \<Rightarrow> ptr \<Rightarrow> c_int \<Rightarrow> free_callback \<Rightarrow> ptr \<Rightarrow> world \<Rightarrow> js_value option \<times> world" where
  "SAFE_NEW_BUFFER ok data len cb hint w =
     ((if ok then Some (JSBuffer data len cb hint) else None),
      log_event (Ev_SAFE_NEW_BUFFER data len cb hint ok) w)"

text \<open>Argument access: \<open>info[i]\<close> past \<open>info.Length()\<close> is \<open>undefined\<close>.\<close>

definition arg :: "js_value list \<Rightarrow> nat \<Rightarrow> js_value" where
  "arg info i = (if i < length info then info ! i else JSUndefined)"

fun IsNullOrUndefined :: "js_value \<Rightarrow> bool" where
  "IsNullOrUndefined JSUndefined = True"
| "IsNullOrUndefined JSNull = True"
| "IsNullOrUndefined _ = False"

fun IsString :: "js_value \<Rightarrow> bool" where
  "IsString (JSString _) = True"
| "IsString _ = False"

fun IsBoolean :: "js_value \<Rightarrow> bool" where
  "IsBoolean (JSBoolean _) = True"
| "IsBoolean _ = False"

fun BooleanValue :: "js_value \<Rightarrow> bool" where
  "BooleanValue (JSBoolean b) = b"
| "BooleanValue JSUndefined = False"
| "BooleanValue JSNull = False"
| "BooleanValue (JSNumber n) = (n \<noteq> 0)"
| "BooleanValue (JSString s) = (s \<noteq> [])"
| "BooleanValue _ = True"

text \<open>
  \<open>*utf8\<close> of a \<open>v8::String::Utf8Value\<close>, read by the engine as a C string: the bytes up
  to the first NUL.
\<close>

fun Utf8Value :: "js_value \<Rightarrow> string" where
  "Utf8Value (JSString s) = takeWhile (\<lambda>c. c \<noteq> CHR 0x00) s"
| "Utf8Value _ = []"

section \<open>The Session class\<close>

text \<open>The write \<open>alive = b\<close> on the object at \<open>this\<close>.\<close>

definition set_alive :: "ptr \<Rightarrow> bool \<Rightarrow> world \<Rightarrow> world" where
  "set_alive this b w =
     log_event (Ev_set_alive this b)
       (w\<lparr>session_heap := (session_heap w)(this := (session_heap w this)\<lparr>alive := b\<rparr>)\<rparr>)"

text \<open>
  \<open>Session::Session\<close> (session.cpp:1-14): initialises the four fields, \<open>alive(true)\<close>, and
  registers with the database. The two assertions are the caller's obligations.
\<close>

definition Session_ctor :: "ptr \<Rightarrow> ptr \<Rightarrow> ptr \<Rightarrow> sqlite3_uint64 \<Rightarrow> world \<Rightarrow> world" where
  "Session_ctor this d h i w =
     AddSession d this
       (log_event (Ev_set_alive this True)
          (w\<lparr>session_heap := (session_heap w)
                (this := \<lparr>db = d, session_handle = h, id_field = i, alive = True\<rparr>)\<rparr>))"

text \<open>\<open>Session::CloseHandles\<close> (session.cpp:22-27).\<close>

definition CloseHandles :: "ptr \<Rightarrow> world \<Rightarrow> world" where
  "CloseHandles this w =
     (if alive (session_heap w this)
      then sqlite3session_delete (session_handle (session_heap w this)) (set_alive this False w)
      else w)"

text \<open>\<open>Session::~Session\<close> (session.cpp:16-19).\<close>

definition Session_dtor :: "ptr \<Rightarrow> world \<Rightarrow> world" where
  "Session_dtor this w =
     CloseHandles this
       (if alive (session_heap w this)
        then RemoveSession (db (session_heap w this)) this w
        else w)"

text \<open>\<open>FreeSqliteMemory\<close> (session.cpp:115-117), and the host's call through the pointer.\<close>

definition FreeSqliteMemory :: "ptr \<Rightarrow> ptr \<Rightarrow> world \<Rightarrow> world" where
  "FreeSqliteMemory data hint w = sqlite3_free data w"

fun call_free_callback :: "free_callback \<Rightarrow> ptr \<Rightarrow> ptr \<Rightarrow> world \<Rightarrow> world" where
  "call_free_callback FreeSqliteMemory_fn data hint w = FreeSqliteMemory data hint w"

text \<open>
  \<open>Session::JS_attach\<close> (session.cpp:67-94). \<open>status\<close> is what the engine's
  \<open>sqlite3session_attach\<close> returns to this call.
\<close>

definition JS_attach ::
  "c_int \<Rightarrow> ptr \<Rightarrow> js_value list \<Rightarrow> world \<Rightarrow> (js_error + js_value) \<times> world" where
  "JS_attach status this info w =
     (let session = session_heap w this in
      if \<not> alive session then (Inl (TypeError ''The session has been closed''), w)
      else if \<not> is_open (db_heap w (db session)) then (Inl database_not_open, w)
      else if length info > 0 \<and> \<not> IsNullOrUndefined (arg info 0) then
        (if \<not> IsString (arg info 0)
         then (Inl (TypeError ''Expected first argument to be a string or null''), w)
         else
           let table_name = Utf8Value (arg info 0);
               w1 = sqlite3session_attach (session_handle session) (Some table_name) w
           in if status \<noteq> SQLITE_OK then (Inl SqliteError, w1) else (Inr JSUndefined, w1))
      else
        (let w1 = sqlite3session_attach (session_handle session) None w
         in if status \<noteq> SQLITE_OK then (Inl SqliteError, w1) else (Inr JSUndefined, w1)))"

text \<open>\<open>Session::JS_enable\<close> (session.cpp:96-112).\<close>

definition JS_enable :: "ptr \<Rightarrow> js_value list \<Rightarrow> world \<Rightarrow> (js_error + js_value) \<times> world" where
  "JS_enable this info w =
     (let session = session_heap w this in
      if \<not> alive session then (Inl (TypeError ''The session has been closed''), w)
      else if \<not> is_open (db_heap w (db session)) then (Inl database_not_open, w)
      else if length info < 1 \<or> \<not> IsBoolean (arg info 0)
      then (Inl (TypeError ''Expected first argument to be a boolean''), w)
      else
        let enable_flag = (if BooleanValue (arg info 0) then 1 else 0)
        in (Inr JSUndefined, sqlite3session_enable (session_handle session) enable_flag w))"

text \<open>
  \<open>Session::JS_changeset\<close> (session.cpp:119-158). \<open>status\<close>, \<open>size'\<close> (the source's \<open>size\<close>) and \<open>buffer\<close> are what
  the engine's \<open>sqlite3session_changeset\<close> returns and stores through its two out
  parameters; \<open>ok\<close> is whether the host then succeeds in building the byte array.
\<close>

definition JS_changeset ::
  "c_int \<Rightarrow> c_int \<Rightarrow> ptr \<Rightarrow> bool \<Rightarrow> ptr \<Rightarrow> js_value list \<Rightarrow> world
     \<Rightarrow> (js_error + js_value) \<times> world" where
  "JS_changeset status size' buffer ok this info w =
     (let session = session_heap w this in
      if \<not> alive session then (Inl (TypeError ''The session has been closed''), w)
      else if \<not> is_open (db_heap w (db session)) then (Inl database_not_open, w)
      else
        let w1 = sqlite3session_changeset (session_handle session) w in
        if status \<noteq> SQLITE_OK then (Inl SqliteError, w1)
        else if buffer = NULL \<or> size' = 0
        then (Inr JSUndefined, (if buffer \<noteq> NULL then sqlite3_free buffer w1 else w1))
        else
          (case SAFE_NEW_BUFFER ok buffer size' FreeSqliteMemory_fn NULL w1 of
             (None, w2) \<Rightarrow>
               (Inl (Error ''Failed to create buffer for changeset''), sqlite3_free buffer w2)
           | (Some result, w2) \<Rightarrow> (Inr result, w2)))"

text \<open>\<open>Session::JS_close\<close> (session.cpp:160-167).\<close>

definition JS_close :: "ptr \<Rightarrow> js_value list \<Rightarrow> world \<Rightarrow> (js_error + js_value) \<times> world" where
  "JS_close this info w =
     (let session = session_heap w this in
      (Inr (JSObject this),
       (if alive session
        then CloseHandles this (RemoveSession (db session) this w)
        else w)))"

text \<open>
  Modelled from the spec: the connection's forced shutdown (\<open>Database::CloseHandles\<close>) is
  not among the sources. By the spec's sections 3, 6 and 9 the connection force-closes
  every registered session before it releases its own resources, and the forced close of
  a session is the same two-phase sequence as an explicit close, guarded by the liveness
  flag: removal from the registry, then \<open>Session::CloseHandles\<close>.
\<close>

definition force_close :: "ptr \<Rightarrow> world \<Rightarrow> world" where
  "force_close s w =
     (if alive (session_heap w s)
      then CloseHandles s (RemoveSession (db (session_heap w s)) s w)
      else w)"

definition Database_CloseHandles :: "ptr \<Rightarrow> world \<Rightarrow> world" where
  "Database_CloseHandles d w =
     (if is_open (db_heap w d)
      then
        let w1 = fold force_close (sessions (db_heap w d)) w
        in w1\<lparr>db_heap := (db_heap w1)(d := (db_heap w1 d)\<lparr>is_open := False\<rparr>)\<rparr>
      else w)"

section \<open>Sequences of operations\<close>

text \<open>
  One operation on the session at an address, with what the engine and the host answer
  to it: a method call, the destruction of the wrapping object, or the forced shutdown of
  the session's owning connection.
\<close>

datatype operation =
    Op_attach c_int "js_value list"
  | Op_enable "js_value list"
  | Op_changeset c_int c_int ptr bool "js_value list"
  | Op_close "js_value list"
  | Op_destructor
  | Op_forced_shutdown

fun step :: "ptr \<times> operation \<Rightarrow> world \<Rightarrow> world" where
  "step (s, Op_attach status info) w = snd (JS_attach status s info w)"
| "step (s, Op_enable info) w = snd (JS_enable s info w)"
| "step (s, Op_changeset status size' buffer ok info) w =
     snd (JS_changeset status size' buffer ok s info w)"
| "step (s, Op_close info) w = snd (JS_close s info w)"
| "step (s, Op_destructor) w = Session_dtor s w"
| "step (s, Op_forced_shutdown) w = Database_CloseHandles (db (session_heap w s)) w"

definition run :: "(ptr \<times> operation) list \<Rightarrow> world \<Rightarrow> world" where
  "run ops w = fold step ops w"

text \<open>The events a transition appends: the trace after it, less the trace before.\<close>

definition new_events :: "world \<Rightarrow> world \<Rightarrow> event list" where
  "new_events w w' = drop (length (trace w)) (trace w')"

text \<open>
  A concrete store for evaluation: one open database at address 1, an empty heap
  otherwise, and the session at address 10 built by the constructor with handle 77 and
  identity 5.
\<close>

definition blank_session :: Session where
  "blank_session = \<lparr>db = 0, session_handle = 0, id_field = 0, alive = False\<rparr>"

definition world0 :: world where
  "world0 =
     \<lparr>session_heap = (\<lambda>_. blank_session),
      db_heap = (\<lambda>_. \<lparr>is_open = True, is_busy = False, sessions = []\<rparr>),
      trace = []\<rparr>"

definition world1 :: world where
  "world1 = Session_ctor 10 1 77 5 world0"

definition world2 :: world where
  "world2 = snd (JS_close 10 [] world1)"

text \<open>
  The same store with the connection at address 1 marked closed while the session at
  address 10 is still alive.
\<close>

definition world_closed_db :: world where
  "world_closed_db =
     world1\<lparr>db_heap := (db_heap world1)(1 := (db_heap world1 1)\<lparr>is_open := False\<rparr>)\<rparr>"

section \<open>Releases in a trace\<close>

text \<open>
  \<open>handles w\<close> reads the native handle of each session. A trace is \<open>releases_paired\<close>
  when every call of \<open>sqlite3session_delete\<close> in it stands immediately after the write
  \<open>alive = false\<close> of a session whose handle it deletes, and every write of the flag is
  such a write followed by such a call: releases and flips of the flag come together.
\<close>

definition handles :: "world \<Rightarrow> ptr \<Rightarrow> ptr" where
  "handles w q = session_handle (session_heap w q)"

fun releases_paired :: "(ptr \<Rightarrow> ptr) \<Rightarrow> event list \<Rightarrow> bool" where
  "releases_paired H [] = True"
| "releases_paired H (e # es) =
     (case e of
        Ev_set_alive q b \<Rightarrow>
          (case es of
             Ev_sqlite3session_delete h # es' \<Rightarrow> \<not> b \<and> h = H q \<and> releases_paired H es'
           | _ \<Rightarrow> False)
      | Ev_sqlite3session_delete h \<Rightarrow> False
      | _ \<Rightarrow> releases_paired H es)"

text \<open>
  What every transition of the system keeps: the trace only grows; the events added are
  \<open>releases_paired\<close>; a session's flag is written to false in them once if the
  session goes from alive to not alive and not at all otherwise; the other fields of
  every session stay as they are; and no session comes back to life.
\<close>

definition transition_ok :: "world \<Rightarrow> world \<Rightarrow> bool" where
  "transition_ok w w' \<longleftrightarrow>
     (\<exists>es. trace w' = trace w @ es \<and> releases_paired (handles w) es \<and>
        (\<forall>p. count_list es (Ev_set_alive p False) =
              (if alive (session_heap w p) \<and> \<not> alive (session_heap w' p) then 1 else 0))) \<and>
     (\<forall>p. db (session_heap w' p) = db (session_heap w p) \<and>
          session_handle (session_heap w' p) = session_handle (session_heap w p) \<and>
          id_field (session_heap w' p) = id_field (session_heap w p)) \<and>
     (\<forall>p. alive (session_heap w' p) \<longrightarrow> alive (session_heap w p))"

section \<open>Basic facts about the store\<close>

lemma log_event_simps:
  "trace (log_event e w) = trace w @ [e]"
  "session_heap (log_event e w) = session_heap w"
  "db_heap (log_event e w) = db_heap w"
  by (simp_all add: log_event_def)

lemma RemoveSession_simps:
  "trace (RemoveSession d s w) = trace w @ [Ev_RemoveSession d s]"
  "session_heap (RemoveSession d s w) = session_heap w"
  by (simp_all add: RemoveSession_def Let_def log_event_simps)

lemma RemoveSession_registry:
  "sessions (db_heap (RemoveSession d s w) d) =
     filter (\<lambda>q. id_field (session_heap w q) \<noteq> id_field (session_heap w s))
       (sessions (db_heap w d))"
  by (simp add: RemoveSession_def Let_def log_event_simps)

lemma RemoveSession_is_open:
  "is_open (db_heap (RemoveSession d s w) d') = is_open (db_heap w d')"
  by (simp add: RemoveSession_def Let_def log_event_simps)

lemma CloseHandles_alive:
  "alive (session_heap w this) \<Longrightarrow>
     trace (CloseHandles this w) =
       trace w @ [Ev_set_alive this False,
                  Ev_sqlite3session_delete (session_handle (session_heap w this))] \<and>
     session_heap (CloseHandles this w) =
       (session_heap w)(this := (session_heap w this)\<lparr>alive := False\<rparr>) \<and>
     db_heap (CloseHandles this w) = db_heap w"
  by (simp add: CloseHandles_def sqlite3session_delete_def set_alive_def log_event_simps)

lemma CloseHandles_not_alive:
  "\<not> alive (session_heap w this) \<Longrightarrow> CloseHandles this w = w"
  by (simp add: CloseHandles_def)

lemma world1_simps:
  "alive (session_heap world1 10)"
  "session_handle (session_heap world1 10) = 77"
  "db (session_heap world1 10) = 1"
  "is_open (db_heap world1 1)"
  "trace world1 = [Ev_set_alive 10 True, Ev_AddSession 1 10]"
  "sessions (db_heap world1 1) = [10]"
  "is_open (db_heap world1 (Suc 0))"
  "sessions (db_heap world1 (Suc 0)) = [10]"
  by (simp_all add: world1_def world0_def Session_ctor_def AddSession_def Let_def
        log_event_simps blank_session_def)

lemma world2_simps:
  "\<not> alive (session_heap world2 10)"
  "trace world2 =
     [Ev_set_alive 10 True, Ev_AddSession 1 10, Ev_RemoveSession 1 10,
      Ev_set_alive 10 False, Ev_sqlite3session_delete 77]"
  "sessions (db_heap world2 1) = []"
  by (simp_all add: world2_def JS_close_def Let_def world1_simps CloseHandles_alive
        RemoveSession_simps RemoveSession_registry)

lemma world_closed_db_simps:
  "alive (session_heap world_closed_db 10)"
  "db (session_heap world_closed_db 10) = 1"
  "session_handle (session_heap world_closed_db 10) = 77"
  "\<not> is_open (db_heap world_closed_db 1)"
  "\<not> is_open (db_heap world_closed_db (Suc 0))"
  by (simp_all add: world_closed_db_def world1_simps)

lemma new_events_append: "trace w' = trace w @ es \<Longrightarrow> new_events w w' = es"
  by (simp add: new_events_def)

lemma JS_close_alive:
  assumes "alive (session_heap w this)"
  shows "trace (snd (JS_close this info w)) =
           trace w @ [Ev_RemoveSession (db (session_heap w this)) this,
                      Ev_set_alive this False,
                      Ev_sqlite3session_delete (session_handle (session_heap w this))]"
    and "session_heap (snd (JS_close this info w)) =
           (session_heap w)(this := (session_heap w this)\<lparr>alive := False\<rparr>)"
    and "db_heap (snd (JS_close this info w)) =
           db_heap (RemoveSession (db (session_heap w this)) this w)"
  using assms
  by (simp_all add: JS_close_def Let_def CloseHandles_alive RemoveSession_simps)

lemma JS_close_not_alive:
  "\<not> alive (session_heap w this) \<Longrightarrow> snd (JS_close this info w) = w"
  by (simp add: JS_close_def Let_def)

lemma JS_close_result: "fst (JS_close this info w) = Inr (JSObject this)"
  by (simp add: JS_close_def Let_def)

lemma JS_close_closes: "\<not> alive (session_heap (snd (JS_close this info w)) this)"
  by (cases "alive (session_heap w this)") (simp_all add: JS_close_alive JS_close_not_alive)

section \<open>Every transition keeps releases paired with the flag\<close>

lemma releases_paired_append:
  "releases_paired H xs \<Longrightarrow> releases_paired H ys \<Longrightarrow> releases_paired H (xs @ ys)"
proof (induction H xs rule: releases_paired.induct)
  case (1 H)
  then show ?case by simp
next
  case (2 H e es)
  show ?case
  proof (cases e)
    case (Ev_set_alive q b)
    with 2 show ?thesis by (cases es) (auto split: event.splits)
  qed (use 2 in auto)
qed

lemma transition_ok_refl: "transition_ok w w"
  by (simp add: transition_ok_def)

lemma transition_ok_fields:
  assumes "transition_ok w w'"
  shows "db (session_heap w' p) = db (session_heap w p)"
    and "session_handle (session_heap w' p) = session_handle (session_heap w p)"
    and "id_field (session_heap w' p) = id_field (session_heap w p)"
  using assms unfolding transition_ok_def by simp_all

lemma transition_ok_handles: "transition_ok w w' \<Longrightarrow> handles w' = handles w"
  by (rule ext) (simp add: handles_def transition_ok_fields)

lemma transition_okI:
  assumes "trace w' = trace w @ es"
      and "releases_paired (handles w) es"
      and "\<And>p. count_list es (Ev_set_alive p False) =
              (if alive (session_heap w p) \<and> \<not> alive (session_heap w' p) then 1 else 0)"
      and "\<And>p. db (session_heap w' p) = db (session_heap w p)"
      and "\<And>p. session_handle (session_heap w' p) = session_handle (session_heap w p)"
      and "\<And>p. id_field (session_heap w' p) = id_field (session_heap w p)"
      and "\<And>p. alive (session_heap w' p) \<Longrightarrow> alive (session_heap w p)"
  shows "transition_ok w w'"
  unfolding transition_ok_def
proof (intro conjI allI impI exI [where x = es])
qed (use assms in simp_all)

lemma transition_ok_events:
  assumes "transition_ok w w'"
  shows "\<exists>es. trace w' = trace w @ es \<and> releases_paired (handles w) es \<and>
           (\<forall>p. count_list es (Ev_set_alive p False) =
              (if alive (session_heap w p) \<and> \<not> alive (session_heap w' p) then 1 else 0))"
  using assms unfolding transition_ok_def by (rule conjunct1)

lemma transition_ok_mono:
  assumes "transition_ok w w'" and "alive (session_heap w' p)"
  shows "alive (session_heap w p)"
  using assms unfolding transition_ok_def by simp

lemma transition_ok_trans:
  assumes a: "transition_ok w w1" and b: "transition_ok w1 w2"
  shows "transition_ok w w2"
proof -
  from transition_ok_events [OF a] obtain es1 where tr1: "trace w1 = trace w @ es1"
    and pr1: "releases_paired (handles w) es1"
    and c1': "\<forall>p. count_list es1 (Ev_set_alive p False) =
              (if alive (session_heap w p) \<and> \<not> alive (session_heap w1 p) then 1 else 0)"
    by (elim exE conjE)
  from transition_ok_events [OF b] obtain es2 where tr2: "trace w2 = trace w1 @ es2"
    and pr2: "releases_paired (handles w1) es2"
    and c2': "\<forall>p. count_list es2 (Ev_set_alive p False) =
              (if alive (session_heap w1 p) \<and> \<not> alive (session_heap w2 p) then 1 else 0)"
    by (elim exE conjE)
  note c1 = c1' [rule_format] and c2 = c2' [rule_format]
  note h1 = transition_ok_fields [OF a] and h2 = transition_ok_fields [OF b]
  note m1 = transition_ok_mono [OF a] and m2 = transition_ok_mono [OF b]
  show ?thesis
  proof (rule transition_okI [where es = "es1 @ es2"])
    show "trace w2 = trace w @ es1 @ es2" by (simp add: tr1 tr2)
    show "releases_paired (handles w) (es1 @ es2)"
      using pr1 pr2 transition_ok_handles [OF a] by (simp add: releases_paired_append)
  next
    fix p
    show "count_list (es1 @ es2) (Ev_set_alive p False) =
            (if alive (session_heap w p) \<and> \<not> alive (session_heap w2 p) then 1 else 0)"
    proof -
      have e: "count_list (es1 @ es2) (Ev_set_alive p False) =
                 count_list es1 (Ev_set_alive p False) + count_list es2 (Ev_set_alive p False)"
        by simp
      show ?thesis
      proof (cases "alive (session_heap w2 p)")
        case True
        then have "alive (session_heap w1 p)" by (rule m2)
        then show ?thesis unfolding e c1 c2 using True by simp
      next
        case False
        show ?thesis
        proof (cases "alive (session_heap w1 p)")
          case True
          then have "alive (session_heap w p)" by (rule m1)
          then show ?thesis unfolding e c1 c2 using True False by simp
        next
          case False
          then show ?thesis unfolding e c1 c2 using \<open>\<not> alive (session_heap w2 p)\<close> by simp
        qed
      qed
    qed
  next
    fix p
    show "db (session_heap w2 p) = db (session_heap w p)"
      by (simp add: h1 h2)
  next
    fix p
    show "session_handle (session_heap w2 p) = session_handle (session_heap w p)"
      by (simp add: h1 h2)
  next
    fix p
    show "id_field (session_heap w2 p) = id_field (session_heap w p)"
      by (simp add: h1 h2)
  next
    fix p
    show "alive (session_heap w2 p) \<Longrightarrow> alive (session_heap w p)"
      using m1 m2 by blast
  qed
qed

lemma transition_ok_neutral:
  assumes "session_heap w' = session_heap w" and "trace w' = trace w @ es"
      and "releases_paired (handles w) es" and "\<And>p. Ev_set_alive p False \<notin> set es"
  shows "transition_ok w w'"
proof (rule transition_okI [where es = es])
  fix p
  have "count_list es (Ev_set_alive p False) = 0"
    using assms(4) [of p] by (simp add: count_list_0_iff)
  then show "count_list es (Ev_set_alive p False) =
          (if alive (session_heap w p) \<and> \<not> alive (session_heap w' p) then 1 else 0)"
    by (simp add: assms(1))
qed (simp_all add: assms)

lemma transition_ok_RemoveSession: "transition_ok w (RemoveSession d s w)"
  by (rule transition_ok_neutral [where es = "[Ev_RemoveSession d s]"])
     (simp_all add: RemoveSession_simps)

lemma transition_ok_CloseHandles: "transition_ok w (CloseHandles this w)"
proof (cases "alive (session_heap w this)")
  case True
  note c = CloseHandles_alive [OF True]
  show ?thesis
  proof (rule transition_okI
      [where es = "[Ev_set_alive this False,
                    Ev_sqlite3session_delete (session_handle (session_heap w this))]"])
    show "trace (CloseHandles this w) =
            trace w @ [Ev_set_alive this False,
                       Ev_sqlite3session_delete (session_handle (session_heap w this))]"
      using c by simp
    show "releases_paired (handles w)
            [Ev_set_alive this False,
             Ev_sqlite3session_delete (session_handle (session_heap w this))]"
      by (simp add: handles_def)
  next
    fix p
    show "count_list [Ev_set_alive this False,
                      Ev_sqlite3session_delete (session_handle (session_heap w this))]
            (Ev_set_alive p False) =
          (if alive (session_heap w p) \<and> \<not> alive (session_heap (CloseHandles this w) p)
           then 1 else 0)"
      using True c by (cases "p = this") simp_all
  next
    fix p
    show "db (session_heap (CloseHandles this w) p) = db (session_heap w p)"
      using c by simp
    show "session_handle (session_heap (CloseHandles this w) p) = session_handle (session_heap w p)"
      using c by simp
    show "id_field (session_heap (CloseHandles this w) p) = id_field (session_heap w p)"
      using c by simp
    show "alive (session_heap (CloseHandles this w) p) \<Longrightarrow> alive (session_heap w p)"
      using c True by (cases "p = this") simp_all
  qed
next
  case False
  then show ?thesis by (simp add: CloseHandles_not_alive transition_ok_refl)
qed

lemma transition_ok_force_close: "transition_ok w (force_close s w)"
  unfolding force_close_def
  by (auto intro: transition_ok_refl transition_ok_trans [OF transition_ok_RemoveSession transition_ok_CloseHandles])

lemma transition_ok_JS_close: "transition_ok w (snd (JS_close this info w))"
  unfolding JS_close_def Let_def
  by (auto intro: transition_ok_refl transition_ok_trans [OF transition_ok_RemoveSession transition_ok_CloseHandles])

lemma transition_ok_Session_dtor: "transition_ok w (Session_dtor this w)"
  unfolding Session_dtor_def
  by (auto intro: transition_ok_CloseHandles transition_ok_trans [OF transition_ok_RemoveSession transition_ok_CloseHandles])

lemma transition_ok_fold_force_close: "transition_ok w (fold force_close xs w)"
proof (induction xs arbitrary: w)
  case Nil
  show ?case by (simp add: transition_ok_refl)
next
  case (Cons x xs)
  show ?case using transition_ok_trans [OF transition_ok_force_close Cons.IH] by simp
qed

lemma transition_ok_Database_CloseHandles: "transition_ok w (Database_CloseHandles d w)"
proof (cases "is_open (db_heap w d)")
  case True
  let ?w1 = "fold force_close (sessions (db_heap w d)) w"
  let ?w2 = "?w1\<lparr>db_heap := (db_heap ?w1)(d := (db_heap ?w1 d)\<lparr>is_open := False\<rparr>)\<rparr>"
  have "transition_ok ?w1 ?w2"
    by (rule transition_ok_neutral [where es = "[]"]) simp_all
  from transition_ok_trans [OF transition_ok_fold_force_close this]
  show ?thesis using True by (simp add: Database_CloseHandles_def Let_def)
next
  case False
  then show ?thesis by (simp add: Database_CloseHandles_def transition_ok_refl)
qed

lemma transition_ok_JS_attach: "transition_ok w (snd (JS_attach status this info w))"
proof -
  have n: "transition_ok w (sqlite3session_attach h t w)" for h t
    by (rule transition_ok_neutral [where es = "[Ev_sqlite3session_attach h t]"])
       (simp_all add: sqlite3session_attach_def log_event_simps)
  show ?thesis
    by (simp add: JS_attach_def Let_def transition_ok_refl n)
qed

lemma transition_ok_JS_enable: "transition_ok w (snd (JS_enable this info w))"
proof -
  have n: "transition_ok w (sqlite3session_enable h f w)" for h f
    by (rule transition_ok_neutral [where es = "[Ev_sqlite3session_enable h f]"])
       (simp_all add: sqlite3session_enable_def log_event_simps)
  show ?thesis
    by (simp add: JS_enable_def Let_def transition_ok_refl n)
qed

lemma transition_ok_JS_changeset:
  "transition_ok w (snd (JS_changeset status size' buffer ok this info w))"
proof -
  have n1: "transition_ok v (sqlite3session_changeset h v)" for h v
    by (rule transition_ok_neutral [where es = "[Ev_sqlite3session_changeset h]"])
       (simp_all add: sqlite3session_changeset_def log_event_simps)
  have n2: "transition_ok v (sqlite3_free b v)" for b v
    by (rule transition_ok_neutral [where es = "[Ev_sqlite3_free b]"])
       (simp_all add: sqlite3_free_def log_event_simps)
  have n3: "transition_ok v (log_event (Ev_SAFE_NEW_BUFFER b n c h k) v)" for k b n c h v
    by (rule transition_ok_neutral [where es = "[Ev_SAFE_NEW_BUFFER b n c h k]"])
       (simp_all add: log_event_simps)
  note t = transition_ok_trans
  have a: "transition_ok w (sqlite3_free b (sqlite3session_changeset h w))" for b h
    by (rule t [OF n1 n2])
  have b: "transition_ok w (log_event (Ev_SAFE_NEW_BUFFER b n c h' k) (sqlite3session_changeset h w))"
    for b n c h' k h
    by (rule t [OF n1 n3])
  have c: "transition_ok w (sqlite3_free b' (log_event (Ev_SAFE_NEW_BUFFER b n c h' k)
             (sqlite3session_changeset h w)))" for b' b n c h' k h
    by (rule t [OF b n2])
  show ?thesis
    by (simp add: JS_changeset_def Let_def SAFE_NEW_BUFFER_def transition_ok_refl n1 a b c)
qed

lemma transition_ok_step: "transition_ok w (step sop w)"
proof (cases sop)
  case (Pair s op)
  then show ?thesis
    by (cases op)
       (simp_all add: transition_ok_JS_attach transition_ok_JS_enable transition_ok_JS_changeset
          transition_ok_JS_close transition_ok_Session_dtor transition_ok_Database_CloseHandles)
qed

lemma transition_ok_run: "transition_ok w (run ops w)"
  unfolding run_def
proof (induction ops arbitrary: w)
  case Nil
  show ?case by (simp add: transition_ok_refl)
next
  case (Cons x xs)
  show ?case using transition_ok_trans [OF transition_ok_step Cons.IH] by simp
qed

lemma transition_ok_new_events:
  assumes "transition_ok w w'"
  shows "releases_paired (handles w) (new_events w w')"
    and "count_list (new_events w w') (Ev_set_alive p False) =
           (if alive (session_heap w p) \<and> \<not> alive (session_heap w' p) then 1 else 0)"
    and "alive (session_heap w' p) \<Longrightarrow> alive (session_heap w p)"
  using assms by (auto simp: transition_ok_def new_events_def)

subsection \<open>Calls of the engine's delete against writes of the flag\<close>

lemma releases_paired_delete_count:
  "releases_paired H es \<Longrightarrow>
     count_list es (Ev_sqlite3session_delete h) =
       length (filter (\<lambda>e. \<exists>q. e = Ev_set_alive q False \<and> H q = h) es)"
proof (induction H es rule: releases_paired.induct)
  case (1 H)
  then show ?case by simp
next
  case (2 H e es)
  show ?case
  proof (cases e)
    case (Ev_set_alive q b)
    with 2 show ?thesis by (cases es) (auto split: event.splits)
  qed (use 2 in auto)
qed

lemma unique_handle_delete_count:
  assumes "releases_paired H es" and "\<forall>q. q \<noteq> p \<longrightarrow> H q \<noteq> H p"
  shows "count_list es (Ev_sqlite3session_delete (H p)) = count_list es (Ev_set_alive p False)"
proof -
  have "(\<exists>q. e = Ev_set_alive q False \<and> H q = H p) \<longleftrightarrow> Ev_set_alive p False = e" for e
  proof
    assume "\<exists>q. e = Ev_set_alive q False \<and> H q = H p"
    then obtain q where q: "e = Ev_set_alive q False" "H q = H p" by blast
    with assms(2) have "q = p" by blast
    with q show "Ev_set_alive p False = e" by simp
  next
    assume "Ev_set_alive p False = e"
    then show "\<exists>q. e = Ev_set_alive q False \<and> H q = H p" by blast
  qed
  then have "(\<lambda>e. \<exists>q. e = Ev_set_alive q False \<and> H q = H p) = (\<lambda>e. Ev_set_alive p False = e)"
    by (intro ext)
  then show ?thesis
    using releases_paired_delete_count [OF assms(1), of "H p"]
    by (simp add: count_list_eq_length_filter)
qed

lemma world1_handles: "q \<noteq> 10 \<Longrightarrow> handles world1 q \<noteq> handles world1 10"
  by (simp add: handles_def world1_def world0_def Session_ctor_def AddSession_def Let_def
        log_event_simps blank_session_def)

subsection \<open>The three ways a session is closed\<close>

lemma force_close_alive:
  assumes "alive (session_heap w this)"
  shows "trace (force_close this w) =
           trace w @ [Ev_RemoveSession (db (session_heap w this)) this,
                      Ev_set_alive this False,
                      Ev_sqlite3session_delete (session_handle (session_heap w this))]"
  using assms by (simp add: force_close_def CloseHandles_alive RemoveSession_simps)

lemma Session_dtor_alive:
  assumes "alive (session_heap w this)"
  shows "trace (Session_dtor this w) =
           trace w @ [Ev_RemoveSession (db (session_heap w this)) this,
                      Ev_set_alive this False,
                      Ev_sqlite3session_delete (session_handle (session_heap w this))]"
    and "\<not> alive (session_heap (Session_dtor this w) this)"
  using assms by (simp_all add: Session_dtor_def CloseHandles_alive RemoveSession_simps)

lemma force_close_other:
  "p \<noteq> q \<Longrightarrow> alive (session_heap (force_close q w) p) = alive (session_heap w p)"
  by (simp add: force_close_def CloseHandles_alive RemoveSession_simps)

lemma fold_force_close_other:
  "p \<notin> set xs \<Longrightarrow> alive (session_heap (fold force_close xs w) p) = alive (session_heap w p)"
  by (induction xs arbitrary: w) (simp_all add: force_close_other)

lemma transition_ok_trace: "transition_ok w w' \<Longrightarrow> trace w' = trace w @ new_events w w'"
  by (auto simp: transition_ok_def new_events_def)

lemma Database_CloseHandles_session:
  assumes al: "alive (session_heap w this)"
      and op: "is_open (db_heap w d)"
      and reg: "this \<in> set (sessions (db_heap w d))"
  shows "\<exists>pre post.
           new_events w (Database_CloseHandles d w) =
             pre @ [Ev_RemoveSession (db (session_heap w this)) this,
                    Ev_set_alive this False,
                    Ev_sqlite3session_delete (session_handle (session_heap w this))] @ post \<and>
           Ev_set_alive this False \<notin> set pre \<and> Ev_set_alive this False \<notin> set post"
proof -
  let ?three = "[Ev_RemoveSession (db (session_heap w this)) this,
                 Ev_set_alive this False,
                 Ev_sqlite3session_delete (session_handle (session_heap w this))]"
  from split_list_first [OF reg] obtain xs ys
    where sp: "sessions (db_heap w d) = xs @ this # ys" and nin: "this \<notin> set xs"
    by blast
  let ?w1 = "fold force_close xs w"
  let ?w2 = "force_close this ?w1"
  let ?w3 = "fold force_close ys ?w2"
  have ok1: "transition_ok w ?w1" by (rule transition_ok_fold_force_close)
  have ok3: "transition_ok ?w2 ?w3" by (rule transition_ok_fold_force_close)
  have al1: "alive (session_heap ?w1 this)"
    using al nin by (simp add: fold_force_close_other)
  have t1: "trace ?w1 = trace w @ new_events w ?w1"
    by (rule transition_ok_trace [OF ok1])
  have t2: "trace ?w2 = trace ?w1 @ ?three"
    using force_close_alive [OF al1] by (simp add: transition_ok_fields [OF ok1])
  have t3: "trace ?w3 = trace ?w2 @ new_events ?w2 ?w3"
    by (rule transition_ok_trace [OF ok3])
  have fold: "fold force_close (sessions (db_heap w d)) w = ?w3"
    by (simp add: sp)
  have tr: "trace (Database_CloseHandles d w) = trace ?w3"
    using op by (simp add: Database_CloseHandles_def Let_def fold)
  let ?pre = "new_events w ?w1" and ?post = "new_events ?w2 ?w3"
  have ev: "new_events w (Database_CloseHandles d w) = ?pre @ ?three @ ?post"
    unfolding new_events_def [of w "Database_CloseHandles d w"] tr
    by (subst t3, subst t2, subst t1) simp
  have "count_list (new_events w (Database_CloseHandles d w)) (Ev_set_alive this False) \<le> 1"
    using transition_ok_new_events(2) [OF transition_ok_Database_CloseHandles, of w d this]
    by simp
  then have "count_list ?pre (Ev_set_alive this False) + 1
               + count_list ?post (Ev_set_alive this False) \<le> 1"
    unfolding ev by simp
  then have "count_list ?pre (Ev_set_alive this False) = 0"
        and "count_list ?post (Ev_set_alive this False) = 0"
    by simp_all
  then have "Ev_set_alive this False \<notin> set ?pre" and "Ev_set_alive this False \<notin> set ?post"
    by (simp_all add: count_list_0_iff)
  with ev show ?thesis by blast
qed

section \<open>changeset\<close>

text \<open>
  C1. On an alive session of an open connection, when the engine answers changeset with
  success and a non-empty buffer (non-NULL, size not zero): if the host builds the byte
  array, the call returns that value over the engine's buffer with \<open>FreeSqliteMemory\<close>
  registered as its free callback and releases nothing itself, and the callback, run on
  the buffer at any later store, calls \<open>sqlite3_free\<close> on it and does nothing else; if
  the host fails to build the byte array, the call calls \<open>sqlite3_free\<close> on the buffer
  before it returns and throws the Error "Failed to create buffer for changeset", which
  is neither the engine error nor a usage error.
\<close>

theorem changeset_buffer_ownership:
  assumes "alive (session_heap w this)"
      and "is_open (db_heap w (db (session_heap w this)))"
      and "buffer \<noteq> NULL" and "size' \<noteq> 0"
  shows "fst (JS_changeset SQLITE_OK size' buffer True this info w) =
           Inr (JSBuffer buffer size' FreeSqliteMemory_fn NULL) \<and>
         new_events w (snd (JS_changeset SQLITE_OK size' buffer True this info w)) =
           [Ev_sqlite3session_changeset (session_handle (session_heap w this)),
            Ev_SAFE_NEW_BUFFER buffer size' FreeSqliteMemory_fn NULL True] \<and>
         new_events v (call_free_callback FreeSqliteMemory_fn buffer NULL v) =
           [Ev_sqlite3_free buffer] \<and>
         fst (JS_changeset SQLITE_OK size' buffer False this info w) =
           Inl (Error ''Failed to create buffer for changeset'') \<and>
         new_events w (snd (JS_changeset SQLITE_OK size' buffer False this info w)) =
           [Ev_sqlite3session_changeset (session_handle (session_heap w this)),
            Ev_SAFE_NEW_BUFFER buffer size' FreeSqliteMemory_fn NULL False,
            Ev_sqlite3_free buffer] \<and>
         Error ''Failed to create buffer for changeset'' \<noteq> SqliteError \<and>
         \<not> is_usage_error (Error ''Failed to create buffer for changeset'')"
  using assms
  by (simp add: JS_changeset_def Let_def sqlite3session_changeset_def sqlite3_free_def
        SAFE_NEW_BUFFER_def FreeSqliteMemory_def log_event_simps new_events_def)

theorem changeset_buffer_ownership_witness:
  "alive (session_heap world1 10) \<and>
   is_open (db_heap world1 (db (session_heap world1 10))) \<and>
   (500 :: ptr) \<noteq> NULL \<and> (4 :: c_int) \<noteq> 0 \<and>
   fst (JS_changeset SQLITE_OK 4 500 True 10 [] world1) =
     Inr (JSBuffer 500 4 FreeSqliteMemory_fn NULL) \<and>
   new_events world1 (call_free_callback FreeSqliteMemory_fn 500 NULL world1) =
     [Ev_sqlite3_free 500] \<and>
   fst (JS_changeset SQLITE_OK 4 500 False 10 [] world1) =
     Inl (Error ''Failed to create buffer for changeset'') \<and>
   new_events world1 (snd (JS_changeset SQLITE_OK 4 500 False 10 [] world1)) =
     [Ev_sqlite3session_changeset 77,
      Ev_SAFE_NEW_BUFFER 500 4 FreeSqliteMemory_fn NULL False,
      Ev_sqlite3_free 500]"
  using changeset_buffer_ownership [where w = world1 and this = 10 and buffer = 500 and size' = 4 and v = world1 and info = "[]"]
  by (simp add: world1_simps NULL_def)

text \<open>
  C8. On an alive session of an open connection, when the engine answers changeset with
  success and either a NULL buffer or size zero, the call returns \<open>undefined\<close>, not a
  byte array; after the engine call it calls \<open>sqlite3_free\<close> on the buffer exactly when
  the buffer is not NULL, and does nothing else.
\<close>

theorem changeset_no_changes:
  assumes "alive (session_heap w this)"
      and "is_open (db_heap w (db (session_heap w this)))"
      and "buffer = NULL \<or> size' = 0"
  shows "fst (JS_changeset SQLITE_OK size' buffer ok this info w) = Inr JSUndefined \<and>
         new_events w (snd (JS_changeset SQLITE_OK size' buffer ok this info w)) =
           Ev_sqlite3session_changeset (session_handle (session_heap w this)) #
             (if buffer \<noteq> NULL then [Ev_sqlite3_free buffer] else [])"
  using assms
  by (auto simp add: JS_changeset_def Let_def sqlite3session_changeset_def sqlite3_free_def
        log_event_simps new_events_def)

theorem changeset_no_changes_witness:
  "alive (session_heap world1 10) \<and>
   is_open (db_heap world1 (db (session_heap world1 10))) \<and>
   (0 :: c_int) = 0 \<and>
   fst (JS_changeset SQLITE_OK 0 500 True 10 [] world1) = Inr JSUndefined \<and>
   new_events world1 (snd (JS_changeset SQLITE_OK 0 500 True 10 [] world1)) =
     [Ev_sqlite3session_changeset 77, Ev_sqlite3_free 500] \<and>
   fst (JS_changeset SQLITE_OK 0 NULL True 10 [] world1) = Inr JSUndefined \<and>
   new_events world1 (snd (JS_changeset SQLITE_OK 0 NULL True 10 [] world1)) =
     [Ev_sqlite3session_changeset 77]"
  using changeset_no_changes [where w = world1 and this = 10 and buffer = 500 and size' = 0 and ok = True and info = "[]"]
        changeset_no_changes [where w = world1 and this = 10 and buffer = NULL and size' = 0 and ok = True and info = "[]"]
  by (simp add: world1_simps NULL_def)

section \<open>attach\<close>

text \<open>
  C2, as stated, fails: on an alive session of an open connection, attach called with
  the string "all" succeeds by calling the engine with the table name "all", which is
  not the wildcard call (the one with a NULL table name).
\<close>

theorem attach_all_string_counterexample:
  "alive (session_heap world1 10) \<and>
   is_open (db_heap world1 (db (session_heap world1 10))) \<and>
   fst (JS_attach SQLITE_OK 10 [JSString ''all''] world1) = Inr JSUndefined \<and>
   new_events world1 (snd (JS_attach SQLITE_OK 10 [JSString ''all''] world1)) =
     [Ev_sqlite3session_attach 77 (Some ''all'')] \<and>
   new_events world1 (snd (JS_attach SQLITE_OK 10 [JSString ''all''] world1)) \<noteq>
     [Ev_sqlite3session_attach 77 None]"
  by (simp add: JS_attach_def Let_def arg_def world1_simps sqlite3session_attach_def
        log_event_simps new_events_def)

text \<open>
  C2, amended. On an alive session of an open connection, attach called with no
  argument, or with a first argument that is null or undefined, calls the engine once
  with a NULL table name (the wildcard: every table); attach called with a string as
  first argument, the string "all" included, calls the engine once with that string's
  bytes up to the first NUL as the one table name, which is the string itself when it
  holds no NUL.
\<close>

theorem attach_table_selection:
  assumes "alive (session_heap w this)"
      and "is_open (db_heap w (db (session_heap w this)))"
  shows "((info = [] \<or> IsNullOrUndefined (hd info)) \<longrightarrow>
            new_events w (snd (JS_attach status this info w)) =
              [Ev_sqlite3session_attach (session_handle (session_heap w this)) None]) \<and>
         (info = JSString name # rest \<longrightarrow>
            new_events w (snd (JS_attach status this info w)) =
              [Ev_sqlite3session_attach (session_handle (session_heap w this))
                 (Some (takeWhile (\<lambda>c. c \<noteq> CHR 0x00) name))]) \<and>
         (info = JSString name # rest \<and> CHR 0x00 \<notin> set name \<longrightarrow>
            new_events w (snd (JS_attach status this info w)) =
              [Ev_sqlite3session_attach (session_handle (session_heap w this)) (Some name)])"
  using assms
  by (cases info)
     (auto simp add: JS_attach_def Let_def arg_def sqlite3session_attach_def
        log_event_simps new_events_def takeWhile_eq_all_conv)

theorem attach_table_selection_witness:
  "alive (session_heap world1 10) \<and>
   is_open (db_heap world1 (db (session_heap world1 10))) \<and>
   new_events world1 (snd (JS_attach SQLITE_OK 10 [] world1)) =
     [Ev_sqlite3session_attach 77 None] \<and>
   IsNullOrUndefined (hd [JSNull, JSString ''t'']) \<and>
   new_events world1 (snd (JS_attach SQLITE_OK 10 [JSNull, JSString ''t''] world1)) =
     [Ev_sqlite3session_attach 77 None] \<and>
   CHR 0x00 \<notin> set ''all'' \<and>
   new_events world1 (snd (JS_attach SQLITE_OK 10 [JSString ''all''] world1)) =
     [Ev_sqlite3session_attach 77 (Some ''all'')]"
  using attach_table_selection [where w = world1 and this = 10 and info = "[]" and status = SQLITE_OK and name = "''all''" and rest = "[]"]
        attach_table_selection [where w = world1 and this = 10 and info = "[JSNull, JSString ''t'']" and status = SQLITE_OK and name = "''all''" and rest = "[]"]
        attach_table_selection [where w = world1 and this = 10 and info = "[JSString ''all'']" and status = SQLITE_OK and name = "''all''" and rest = "[]"]
  by (simp add: world1_simps)

text \<open>
  C9. On an alive session of an open connection, attach called with a first argument
  that is neither a string nor null nor undefined fails with the usage error "Expected
  first argument to be a string or null" and leaves the store as it was, so no engine
  call is made.
\<close>

theorem attach_rejects_non_string:
  assumes "alive (session_heap w this)"
      and "is_open (db_heap w (db (session_heap w this)))"
      and "info = a # rest"
      and "\<not> IsString a" and "\<not> IsNullOrUndefined a"
  shows "JS_attach status this info w =
           (Inl (TypeError ''Expected first argument to be a string or null''), w) \<and>
         is_usage_error (TypeError ''Expected first argument to be a string or null'') \<and>
         filter is_engine_call (new_events w (snd (JS_attach status this info w))) = []"
  using assms by (simp add: JS_attach_def Let_def arg_def new_events_def)

theorem attach_rejects_non_string_witness:
  "alive (session_heap world1 10) \<and>
   is_open (db_heap world1 (db (session_heap world1 10))) \<and>
   \<not> IsString (JSNumber 3) \<and> \<not> IsNullOrUndefined (JSNumber 3) \<and>
   JS_attach SQLITE_OK 10 [JSNumber 3] world1 =
     (Inl (TypeError ''Expected first argument to be a string or null''), world1)"
  using attach_rejects_non_string [where w = world1 and this = 10 and info = "[JSNumber 3]" and a = "JSNumber 3" and rest = "[]" and status = SQLITE_OK]
  by (simp add: world1_simps)

section \<open>enable\<close>

text \<open>
  C3, as stated, fails: on an alive session of an open connection, enable called with
  two arguments, the first a boolean, succeeds and calls the engine.
\<close>

theorem enable_extra_arguments_counterexample:
  "alive (session_heap world1 10) \<and>
   is_open (db_heap world1 (db (session_heap world1 10))) \<and>
   length [JSBoolean True, JSNumber 5] \<noteq> 1 \<and>
   fst (JS_enable 10 [JSBoolean True, JSNumber 5] world1) = Inr JSUndefined \<and>
   new_events world1 (snd (JS_enable 10 [JSBoolean True, JSNumber 5] world1)) =
     [Ev_sqlite3session_enable 77 1]"
  by (simp add: JS_enable_def Let_def arg_def world1_simps sqlite3session_enable_def
        log_event_simps new_events_def)

text \<open>
  C3, amended. On an alive session of an open connection, enable succeeds when its
  first argument is a boolean, whatever arguments follow it, and then calls the engine
  once with flag 1 for true and 0 for false; called with no argument, or with a first
  argument that is not a boolean, it fails with the usage error "Expected first argument
  to be a boolean" and leaves the store as it was, so no engine call is made.
\<close>

theorem enable_requires_boolean_first:
  assumes "alive (session_heap w this)"
      and "is_open (db_heap w (db (session_heap w this)))"
  shows "(info = JSBoolean b # rest \<longrightarrow>
            fst (JS_enable this info w) = Inr JSUndefined \<and>
            new_events w (snd (JS_enable this info w)) =
              [Ev_sqlite3session_enable (session_handle (session_heap w this))
                 (if b then 1 else 0)]) \<and>
         ((info = [] \<or> \<not> IsBoolean (hd info)) \<longrightarrow>
            JS_enable this info w =
              (Inl (TypeError ''Expected first argument to be a boolean''), w) \<and>
            filter is_engine_call (new_events w (snd (JS_enable this info w))) = [])"
  using assms
  by (cases info)
     (auto simp add: JS_enable_def Let_def arg_def sqlite3session_enable_def
        log_event_simps new_events_def)

theorem enable_requires_boolean_first_witness:
  "alive (session_heap world1 10) \<and>
   is_open (db_heap world1 (db (session_heap world1 10))) \<and>
   fst (JS_enable 10 [JSBoolean False, JSNumber 5] world1) = Inr JSUndefined \<and>
   new_events world1 (snd (JS_enable 10 [JSBoolean False, JSNumber 5] world1)) =
     [Ev_sqlite3session_enable 77 0] \<and>
   JS_enable 10 [] world1 =
     (Inl (TypeError ''Expected first argument to be a boolean''), world1) \<and>
   \<not> IsBoolean (hd [JSNumber 1]) \<and>
   JS_enable 10 [JSNumber 1] world1 =
     (Inl (TypeError ''Expected first argument to be a boolean''), world1)"
  using enable_requires_boolean_first [where w = world1 and this = 10 and info = "[JSBoolean False, JSNumber 5]" and b = False and rest = "[JSNumber 5]"]
        enable_requires_boolean_first [where w = world1 and this = 10 and info = "[]" and b = False and rest = "[]"]
        enable_requires_boolean_first [where w = world1 and this = 10 and info = "[JSNumber 1]" and b = False and rest = "[]"]
  by (simp add: world1_simps)

section \<open>close\<close>

text \<open>
  C4. Closing an alive session appends to the trace exactly the call of the owning
  connection's \<open>RemoveSession\<close> on it, then the write \<open>alive = false\<close>, then the call of
  \<open>sqlite3session_delete\<close> on its handle, and leaves it not alive; this holds for the
  explicit close and for the destructor. In the forced shutdown of an open connection
  that has the session in its registry, the trace gains these same three events, in this
  order and next to each other, and the flag of the session is written nowhere else in it.
\<close>

theorem close_removes_before_release:
  assumes "alive (session_heap w this)"
  shows "new_events w (snd (JS_close this info w)) =
           [Ev_RemoveSession (db (session_heap w this)) this,
            Ev_set_alive this False,
            Ev_sqlite3session_delete (session_handle (session_heap w this))] \<and>
         \<not> alive (session_heap (snd (JS_close this info w)) this) \<and>
         new_events w (Session_dtor this w) =
           [Ev_RemoveSession (db (session_heap w this)) this,
            Ev_set_alive this False,
            Ev_sqlite3session_delete (session_handle (session_heap w this))] \<and>
         \<not> alive (session_heap (Session_dtor this w) this) \<and>
         (is_open (db_heap w d) \<and> this \<in> set (sessions (db_heap w d)) \<longrightarrow>
            (\<exists>pre post.
               new_events w (Database_CloseHandles d w) =
                 pre @ [Ev_RemoveSession (db (session_heap w this)) this,
                        Ev_set_alive this False,
                        Ev_sqlite3session_delete (session_handle (session_heap w this))] @ post \<and>
               Ev_set_alive this False \<notin> set pre \<and> Ev_set_alive this False \<notin> set post))"
  using assms Database_CloseHandles_session [OF assms, of d]
  by (simp add: new_events_def JS_close_alive JS_close_closes Session_dtor_alive)

theorem close_removes_before_release_witness:
  "alive (session_heap world1 10) \<and>
   is_open (db_heap world1 1) \<and> 10 \<in> set (sessions (db_heap world1 1)) \<and>
   new_events world1 (snd (JS_close 10 [] world1)) =
     [Ev_RemoveSession 1 10, Ev_set_alive 10 False, Ev_sqlite3session_delete 77] \<and>
   new_events world1 (Session_dtor 10 world1) =
     [Ev_RemoveSession 1 10, Ev_set_alive 10 False, Ev_sqlite3session_delete 77] \<and>
   (\<exists>pre post.
      new_events world1 (Database_CloseHandles 1 world1) =
        pre @ [Ev_RemoveSession 1 10, Ev_set_alive 10 False, Ev_sqlite3session_delete 77] @ post \<and>
      Ev_set_alive 10 False \<notin> set pre \<and> Ev_set_alive 10 False \<notin> set post)"
  using close_removes_before_release [where w = world1 and this = 10 and info = "[]" and d = 1]
  by (simp add: world1_simps)

text \<open>
  C5. Every call of close returns the session's own handle and never throws, whether
  the session is alive or not; and any non-empty sequence of close calls on a session,
  with whatever arguments, leaves the store (heaps, registry and trace) exactly as a
  single close call does.
\<close>

theorem close_idempotent:
  "fst (JS_close this info w) = Inr (JSObject this) \<and>
   (infos \<noteq> [] \<longrightarrow>
      fold (\<lambda>i v. snd (JS_close this i v)) infos w = snd (JS_close this info w))"
proof -
  have twice: "snd (JS_close this i (snd (JS_close this j v))) = snd (JS_close this j v)" for i j v
    by (rule JS_close_not_alive) (rule JS_close_closes)
  have any_args: "snd (JS_close this i v) = snd (JS_close this j v)" for i j v
    by (simp add: JS_close_def)
  have after: "fold (\<lambda>i v. snd (JS_close this i v)) is (snd (JS_close this j v)) = snd (JS_close this j v)" for "is" j v
    by (induction "is") (simp_all add: twice)
  have "fold (\<lambda>i v. snd (JS_close this i v)) infos w = snd (JS_close this info w)" if "infos \<noteq> []"
  proof (cases infos)
    case Nil
    with that show ?thesis by simp
  next
    case (Cons i rest)
    then show ?thesis using after [of rest i w] any_args [of i w info] by simp
  qed
  then show ?thesis by (simp add: JS_close_result)
qed

theorem close_idempotent_witness:
  "[[], [JSNumber 1], []] \<noteq> [] \<and>
   fst (JS_close 10 [] world1) = Inr (JSObject 10) \<and>
   fold (\<lambda>i v. snd (JS_close 10 i v)) [[], [JSNumber 1], []] world1 = snd (JS_close 10 [] world1)"
  using close_idempotent [where this = 10 and info = "[]" and w = world1 and infos = "[[], [JSNumber 1], []]"]
  by simp

text \<open>
  C6. On a session whose liveness flag is false, attach, enable and changeset each fail
  with the usage error "The session has been closed", whatever their arguments and
  whatever the engine would have answered, and leave the whole store as it was: no
  engine call is made, no field is written and the trace is unchanged.
\<close>

theorem closed_session_operations_fail:
  assumes "\<not> alive (session_heap w this)"
  shows "JS_attach status this info w = (Inl (TypeError ''The session has been closed''), w) \<and>
         JS_enable this info' w = (Inl (TypeError ''The session has been closed''), w) \<and>
         JS_changeset status' size' buffer ok this info'' w =
           (Inl (TypeError ''The session has been closed''), w) \<and>
         is_usage_error (TypeError ''The session has been closed'') \<and>
         filter is_engine_call (new_events w (snd (JS_attach status this info w))) = [] \<and>
         filter is_engine_call (new_events w (snd (JS_enable this info' w))) = [] \<and>
         filter is_engine_call
           (new_events w (snd (JS_changeset status' size' buffer ok this info'' w))) = []"
  using assms by (simp add: JS_attach_def JS_enable_def JS_changeset_def new_events_def)

theorem closed_session_operations_fail_witness:
  "\<not> alive (session_heap world2 10) \<and>
   JS_attach 0 10 [] world2 = (Inl (TypeError ''The session has been closed''), world2) \<and>
   JS_enable 10 [JSBoolean True] world2 =
     (Inl (TypeError ''The session has been closed''), world2) \<and>
   JS_changeset 0 4 500 True 10 [] world2 =
     (Inl (TypeError ''The session has been closed''), world2)"
  using closed_session_operations_fail [of world2 10 0 "[]" "[JSBoolean True]" 0 4 500 True "[]"]
  by (simp add: world2_simps)

text \<open>
  C10. close returns the session's own handle and leaves the session not alive in every
  store: it never consults the connection's open state. Where the owning connection is
  not open, close on an alive session still removes it from the registry and releases
  its handle, while attach, enable and changeset fail with a usage error and leave the
  store as it was: "not open" on an alive session, "closed" on one that is not alive.
\<close>

theorem close_ignores_connection_state:
  "fst (JS_close this info w) = Inr (JSObject this) \<and>
   \<not> alive (session_heap (snd (JS_close this info w)) this) \<and>
   (\<not> is_open (db_heap w (db (session_heap w this))) \<longrightarrow>
      (alive (session_heap w this) \<longrightarrow>
         new_events w (snd (JS_close this info w)) =
           [Ev_RemoveSession (db (session_heap w this)) this,
            Ev_set_alive this False,
            Ev_sqlite3session_delete (session_handle (session_heap w this))]) \<and>
      JS_attach status this info_a w =
        (Inl (if alive (session_heap w this) then database_not_open
              else TypeError ''The session has been closed''), w) \<and>
      JS_enable this info_e w =
        (Inl (if alive (session_heap w this) then database_not_open
              else TypeError ''The session has been closed''), w) \<and>
      JS_changeset status_c size' buffer ok this info_c w =
        (Inl (if alive (session_heap w this) then database_not_open
              else TypeError ''The session has been closed''), w) \<and>
      is_usage_error database_not_open)"
  by (simp add: JS_close_result JS_close_closes JS_close_alive new_events_def
        JS_attach_def JS_enable_def JS_changeset_def Let_def database_not_open_def)

theorem close_ignores_connection_state_witness:
  "\<not> is_open (db_heap world_closed_db (db (session_heap world_closed_db 10))) \<and>
   alive (session_heap world_closed_db 10) \<and>
   fst (JS_close 10 [] world_closed_db) = Inr (JSObject 10) \<and>
   \<not> alive (session_heap (snd (JS_close 10 [] world_closed_db)) 10) \<and>
   new_events world_closed_db (snd (JS_close 10 [] world_closed_db)) =
     [Ev_RemoveSession 1 10, Ev_set_alive 10 False, Ev_sqlite3session_delete 77] \<and>
   JS_attach SQLITE_OK 10 [] world_closed_db = (Inl database_not_open, world_closed_db) \<and>
   JS_enable 10 [JSBoolean True] world_closed_db = (Inl database_not_open, world_closed_db) \<and>
   JS_changeset SQLITE_OK 4 500 True 10 [] world_closed_db =
     (Inl database_not_open, world_closed_db)"
  using close_ignores_connection_state
          [where this = 10 and info = "[]" and w = world_closed_db and status = SQLITE_OK
             and info_a = "[]" and info_e = "[JSBoolean True]" and status_c = SQLITE_OK
             and size' = 4 and buffer = 500 and ok = True and info_c = "[]"]
  by (simp add: world_closed_db_simps)

section \<open>The handle is released at most once\<close>

text \<open>
  C7. For every store, every session \<open>p\<close> and every sequence of operations on any
  sessions (attach, enable, changeset, close, destructor, forced shutdown of the owning
  connection): the events the sequence appends write \<open>p\<close>'s flag to false at most once;
  in them every call of \<open>sqlite3session_delete\<close> stands immediately after the write
  \<open>alive = false\<close> of a session whose handle it deletes, and every write of the flag is
  followed by such a call; so, when no other session holds \<open>p\<close>'s handle,
  \<open>sqlite3session_delete\<close> is called on that handle at most once; a single operation
  writes \<open>p\<close>'s flag to false only if \<open>p\<close> was alive before it, and \<open>p\<close> is not alive
  after it; and a session that is not alive stays so, with no further write of its flag
  and so no further release.
\<close>

theorem handle_released_at_most_once:
  "count_list (new_events w (run ops w)) (Ev_set_alive p False) \<le> 1 \<and>
   releases_paired (handles w) (new_events w (run ops w)) \<and>
   ((\<forall>q. q \<noteq> p \<longrightarrow> handles w q \<noteq> handles w p) \<longrightarrow>
      count_list (new_events w (run ops w)) (Ev_sqlite3session_delete (handles w p)) \<le> 1) \<and>
   (Ev_set_alive p False \<in> set (new_events w (step (s, op) w)) \<longrightarrow>
      alive (session_heap w p) \<and> \<not> alive (session_heap (step (s, op) w) p)) \<and>
   (\<not> alive (session_heap w p) \<longrightarrow>
      \<not> alive (session_heap (run ops w) p) \<and>
      Ev_set_alive p False \<notin> set (new_events w (run ops w)))"
proof -
  note r = transition_ok_new_events [OF transition_ok_run [of w ops]]
  note s = transition_ok_new_events [OF transition_ok_step [of w "(s, op)"]]
  have 1: "count_list (new_events w (run ops w)) (Ev_set_alive p False) \<le> 1"
    using r(2) [of p] by simp
  have 2: "(\<forall>q. q \<noteq> p \<longrightarrow> handles w q \<noteq> handles w p) \<longrightarrow>
      count_list (new_events w (run ops w)) (Ev_sqlite3session_delete (handles w p)) \<le> 1"
    using 1 unique_handle_delete_count [OF r(1), of p] by simp
  have 3: "Ev_set_alive p False \<in> set (new_events w (step (s, op) w)) \<longrightarrow>
      alive (session_heap w p) \<and> \<not> alive (session_heap (step (s, op) w) p)"
    using s(2) [of p] count_list_0_iff [of "new_events w (step (s, op) w)" "Ev_set_alive p False"]
    by (auto split: if_splits)
  have 4: "\<not> alive (session_heap w p) \<longrightarrow>
      \<not> alive (session_heap (run ops w) p) \<and>
      Ev_set_alive p False \<notin> set (new_events w (run ops w))"
    using r(2) [of p] r(3) [of p] count_list_0_iff [of "new_events w (run ops w)" "Ev_set_alive p False"]
    by (auto split: if_splits)
  show ?thesis using 1 r(1) 2 3 4 by blast
qed

theorem handle_released_at_most_once_witness:
  "count_list
     (new_events world1
        (run [(10, Op_close []), (10, Op_forced_shutdown), (10, Op_destructor)] world1))
     (Ev_set_alive 10 False) \<le> 1 \<and>
   count_list
     (new_events world1
        (run [(10, Op_close []), (10, Op_forced_shutdown), (10, Op_destructor)] world1))
     (Ev_sqlite3session_delete 77) \<le> 1 \<and>
   Ev_set_alive 10 False \<in> set (new_events world1 (step (10, Op_close []) world1)) \<and>
   alive (session_heap world1 10) \<and>
   \<not> alive (session_heap (step (10, Op_close []) world1) 10) \<and>
   \<not> alive (session_heap world2 10) \<and>
   \<not> alive (session_heap (run [(10, Op_destructor), (10, Op_close [])] world2) 10) \<and>
   Ev_set_alive 10 False \<notin>
     set (new_events world2 (run [(10, Op_destructor), (10, Op_close [])] world2))"
proof -
  have m: "Ev_set_alive 10 False \<in> set (new_events world1 (step (10, Op_close []) world1))"
    by (simp add: new_events_def JS_close_alive world1_simps)
  have u: "\<forall>q. q \<noteq> 10 \<longrightarrow> handles world1 q \<noteq> handles world1 10"
    by (simp add: world1_handles)
  have h: "handles world1 10 = 77"
    by (simp add: handles_def world1_simps)
  show ?thesis
    using m u h
      handle_released_at_most_once
        [where w = world1 and p = 10 and s = 10 and op = "Op_close []"
           and ops = "[(10, Op_close []), (10, Op_forced_shutdown), (10, Op_destructor)]"]
      handle_released_at_most_once
        [where w = world2 and p = 10 and s = 10 and op = "Op_close []"
           and ops = "[(10, Op_destructor), (10, Op_close [])]"]
    by (simp add: world2_simps)
qed

end
